theory Spec2Isabelle
  imports Main
begin

section \<open>Gyst: a content-addressed store, a staging index, a commit chain\<close>

text \<open>
  The repository has two source files that define the same class \<^verbatim>\<open>Gyst\<close> twice:
  \<^item> the file with its own command dispatcher (commands init, add, commit, log, diff).
    Its methods keep their names here: \<open>init\<close>, \<open>add\<close>, \<open>updateStagingArea\<close>,
    \<open>commit\<close>, \<open>getCurrentHead\<close>, \<open>log\<close>, \<open>showCommitDiff\<close>, ...
  \<^item> \<^verbatim>\<open>Gyst.js\<close>, built on commander (commands init, add, commit, log, show).
    Its methods carry the suffix \<open>_Gyst\<close>.

  The file system below \<^verbatim>\<open>.gyst\<close> is a record of three components. Every file
  holds text. What the JavaScript runtime and the imported packages compute (SHA-1,
  \<^verbatim>\<open>JSON.parse\<close>, \<^verbatim>\<open>JSON.stringify\<close>, \<^verbatim>\<open>diffLines\<close>) is a parameter of the
  model, the record \<open>runtime\<close>.
\<close>

subsection \<open>Data\<close>

text \<open>An element of the staging list: \<^verbatim>\<open>{ path: filePath, hash: fileHash }\<close>.\<close>

record entry =
  path :: string
  hash :: string

text \<open>
  The object literal \<^verbatim>\<open>commitData\<close>. The field \<open>parent\<close> is a string or
  \<^verbatim>\<open>null\<close> (\<open>None\<close>).
\<close>

record commit_data =
  timeStamp :: string
  message :: string
  files :: "entry list"
  parent :: "string option"

text \<open>
  The files below \<^verbatim>\<open>.gyst\<close>: \<open>objects r n\<close> is what reading
  \<^verbatim>\<open>path.join(objectsPath, n)\<close> gives (\<open>None\<close> when the read is rejected),
  \<open>HEAD r\<close> and \<open>index_file r\<close> are the texts of \<^verbatim>\<open>.gyst/HEAD\<close> and
  \<^verbatim>\<open>.gyst/index\<close> (\<open>None\<close> when the file is absent). Object names are digests,
  so that two different names are two different files.
\<close>

record repo =
  objects :: "string \<rightharpoonup> string"
  HEAD :: "string option"
  index_file :: "string option"

text \<open>A change object of the package \<^verbatim>\<open>diff\<close>: the flags the code tests, and the text.\<close>

record change =
  added :: bool
  removed :: bool
  part_value :: string

text \<open>
  The runtime. \<open>JSON_parse_index\<close> and \<open>JSON_parse_commit\<close> are \<^verbatim>\<open>JSON.parse\<close>
  on a text that holds a staging list and a commit; \<open>None\<close> is the thrown SyntaxError.
  A text that parses to a value of another shape is outside the model. The first
  argument of the two \<open>JSON_stringify\<close> fields is the indentation: \<open>0\<close> for
  \<^verbatim>\<open>JSON.stringify(v)\<close> and \<open>2\<close> for \<^verbatim>\<open>JSON.stringify(v, null, 2)\<close>.
\<close>

record runtime =
  sha1_hex :: "string \<Rightarrow> string"
  JSON_parse_index :: "string \<Rightarrow> entry list option"
  JSON_stringify_index :: "nat \<Rightarrow> entry list \<Rightarrow> string"
  JSON_parse_commit :: "string \<Rightarrow> commit_data option"
  JSON_stringify_commit :: "nat \<Rightarrow> commit_data \<Rightarrow> string"
  diffLines :: "string \<Rightarrow> string \<Rightarrow> change list"

text \<open>
  \<^verbatim>\<open>JSON.parse(JSON.stringify(v))\<close> gives back \<open>v\<close>, for the values the program
  serialises and both indentations.
\<close>

definition json_roundtrip :: "runtime \<Rightarrow> bool" where
  "json_roundtrip rt \<longleftrightarrow>
     (\<forall>n idx. JSON_parse_index rt (JSON_stringify_index rt n idx) = Some idx) \<and>
     (\<forall>n c. JSON_parse_commit rt (JSON_stringify_commit rt n c) = Some c)"

text \<open>
  Errors: \<open>Exit1 m\<close> is \<^verbatim>\<open>console.error(m); process.exit(1)\<close>; the other three
  are exceptions that no handler of the program catches (a rejected read, a failed
  \<^verbatim>\<open>JSON.parse\<close>, a property read on \<^verbatim>\<open>null\<close>).
\<close>

datatype error = Exit1 string | ENOENT | SyntaxError | TypeError

text \<open>
  Standard output: \<open>Log s\<close> is \<^verbatim>\<open>console.log(s)\<close>; \<open>Green\<close>, \<open>Red\<close> and
  \<open>Grey\<close> are \<^verbatim>\<open>process.stdout.write\<close> of a text coloured by chalk.
\<close>

datatype out = Log string | Green string | Red string | Grey string

text \<open>What a command printed, and the error that ended it, if any.\<close>

type_synonym run = "out list \<times> error option"

definition newline :: string where
  "newline = [CHR 0x0A]"

definition quote :: string where
  "quote = [CHR 0x27]"

text \<open>\<^verbatim>\<open>String.prototype.trim\<close>, on the ASCII white space and line terminators.\<close>

definition is_space :: "char \<Rightarrow> bool" where
  "is_space c \<longleftrightarrow> c \<in> set [CHR 0x20, CHR 0x09, CHR 0x0A, CHR 0x0B, CHR 0x0C, CHR 0x0D]"

definition trim :: "string \<Rightarrow> string" where
  "trim s = rev (dropWhile is_space (rev (dropWhile is_space s)))"

text \<open>
  A loop body that may throw, run over a list in order: \<^verbatim>\<open>for (const x of xs)\<close>.
  The first error ends the loop; what was printed before stays printed.
\<close>

fun for_each :: "('a \<Rightarrow> run) \<Rightarrow> 'a list \<Rightarrow> run" where
  "for_each body [] = ([], None)"
| "for_each body (x # xs) =
     (case body x of
        (printed, Some e) \<Rightarrow> (printed, Some e)
      | (printed, None) \<Rightarrow>
          (case for_each body xs of (later, e) \<Rightarrow> (printed @ later, e)))"

text \<open>
  The history loop of both files, \<^verbatim>\<open>while (current) { ... current = commitData.parent }\<close>.
  The two files differ in the lines they print for a commit, the argument \<open>lines\<close>.
  \<open>current\<close> is falsy when it is \<^verbatim>\<open>null\<close> or the empty string. The read and the
  \<^verbatim>\<open>JSON.parse\<close> are not guarded. A walk that never ends has the value \<open>None\<close>.
\<close>

partial_function (option) log_loop ::
  "(string \<Rightarrow> commit_data \<Rightarrow> out list) \<Rightarrow> runtime \<Rightarrow> (string \<rightharpoonup> string) \<Rightarrow>
     string option \<Rightarrow> out list \<Rightarrow> run option"
where
  "log_loop lines rt objs current printed =
     (case current of
        None \<Rightarrow> Some (printed, None)
      | Some h \<Rightarrow>
          if h = [] then Some (printed, None)
          else
            (case objs h of
               None \<Rightarrow> Some (printed, Some ENOENT)
             | Some raw \<Rightarrow>
                 (case JSON_parse_commit rt raw of
                    None \<Rightarrow> Some (printed, Some SyntaxError)
                  | Some commitData \<Rightarrow>
                      log_loop lines rt objs (parent commitData)
                        (printed @ lines h commitData))))"

declare log_loop.simps [code]

subsection \<open>The file with the command dispatcher\<close>

text \<open>
  \<^verbatim>\<open>init\<close>: the directories are made, then HEAD and the index are written with the
  flag \<^verbatim>\<open>wx\<close>, which fails on a file that exists; the first failure ends the
  \<^verbatim>\<open>try\<close> block.
\<close>

definition init :: "runtime \<Rightarrow> repo \<Rightarrow> repo" where
  "init rt r =
     (case HEAD r of
        Some _ \<Rightarrow> r
      | None \<Rightarrow>
          (let r1 = r\<lparr>HEAD := Some []\<rparr> in
           case index_file r1 of
             Some _ \<Rightarrow> r1
           | None \<Rightarrow> r1\<lparr>index_file := Some (JSON_stringify_index rt 0 [])\<rparr>))"

definition hashObject :: "runtime \<Rightarrow> string \<Rightarrow> string" where
  "hashObject rt content = sha1_hex rt content"

text \<open>
  The guarded read of the index in \<^verbatim>\<open>updateStagingArea\<close> and \<^verbatim>\<open>commit\<close>:
  \<^verbatim>\<open>try { index = JSON.parse(await fs.readFile(...)) } catch { index = [] }\<close>.
\<close>

definition read_index :: "runtime \<Rightarrow> repo \<Rightarrow> entry list" where
  "read_index rt r =
     (case index_file r of
        None \<Rightarrow> []
      | Some text \<Rightarrow> (case JSON_parse_index rt text of None \<Rightarrow> [] | Some index \<Rightarrow> index))"

definition updateStagingArea :: "runtime \<Rightarrow> string \<Rightarrow> string \<Rightarrow> repo \<Rightarrow> repo" where
  "updateStagingArea rt filePath fileHash r =
     (let index = read_index rt r;
          index = filter (\<lambda>entry. path entry \<noteq> filePath) index;
          index = index @ [\<lparr>path = filePath, hash = fileHash\<rparr>]
      in r\<lparr>index_file := Some (JSON_stringify_index rt 2 index)\<rparr>)"

text \<open>
  \<^verbatim>\<open>add\<close>. The argument \<open>worktree\<close> gives the text that reading a path returns,
  \<open>None\<close> when the read fails. The result is paired with the repository as the call
  leaves it, also when it fails. The confirmations that \<^verbatim>\<open>init\<close>, \<^verbatim>\<open>add\<close> and
  \<^verbatim>\<open>commit\<close> print are left out.
\<close>

definition add :: "runtime \<Rightarrow> (string \<rightharpoonup> string) \<Rightarrow> string \<Rightarrow> repo \<Rightarrow> (error + unit) \<times> repo" where
  "add rt worktree fileToBeAdded r =
     (let r = init rt r in
      case worktree fileToBeAdded of
        None \<Rightarrow>
          (Inl (Exit1 (''Error: cannot read file '' @ quote @ fileToBeAdded @ quote @ ''.'')), r)
      | Some fileData \<Rightarrow>
          (let fileHash = hashObject rt fileData;
               r = r\<lparr>objects := (objects r)(fileHash \<mapsto> fileData)\<rparr>;
               r = updateStagingArea rt fileToBeAdded fileHash r
           in (Inr (), r)))"

definition getCurrentHead :: "repo \<Rightarrow> string option" where
  "getCurrentHead r =
     (case HEAD r of
        None \<Rightarrow> None
      | Some head \<Rightarrow> if trim head = [] then None else Some (trim head))"

text \<open>\<^verbatim>\<open>x || null\<close> on a string or \<^verbatim>\<open>null\<close>.\<close>

definition or_null :: "string option \<Rightarrow> string option" where
  "or_null x = (case x of None \<Rightarrow> None | Some s \<Rightarrow> if s = [] then None else Some s)"

text \<open>
  \<^verbatim>\<open>commit\<close>; \<open>now\<close> is \<^verbatim>\<open>new Date().toISOString()\<close>. A successful call
  returns the digest it printed.
\<close>

definition commit :: "runtime \<Rightarrow> string \<Rightarrow> string \<Rightarrow> repo \<Rightarrow> (error + string) \<times> repo" where
  "commit rt now msg r =
     (let r = init rt r;
          index = read_index rt r
      in if length index = 0 then (Inl (Exit1 ''No changes added to commit.''), r)
         else
           (let parentCommit = or_null (getCurrentHead r);
                commitData = \<lparr>timeStamp = now, message = msg, files = index, parent = parentCommit\<rparr>;
                commitHash = hashObject rt (JSON_stringify_commit rt 0 commitData);
                r = r\<lparr>objects := (objects r)(commitHash \<mapsto> JSON_stringify_commit rt 2 commitData)\<rparr>;
                r = r\<lparr>HEAD := Some commitHash\<rparr>;
                r = r\<lparr>index_file := Some (JSON_stringify_index rt 2 [])\<rparr>
            in (Inr commitHash, r)))"

definition log_lines :: "string \<Rightarrow> commit_data \<Rightarrow> out list" where
  "log_lines current commitData =
     [Log (''_____________________'' @ newline),
      Log (''Commit: '' @ current),
      Log (''Date:   '' @ timeStamp commitData @ newline),
      Log (''    '' @ message commitData @ newline)]"

definition no_repository :: error where
  "no_repository =
     Exit1 (''Error: no Gyst repository found. Did you run '' @ quote @ ''gyst init'' @ quote @ ''?'')"

definition log :: "runtime \<Rightarrow> repo \<Rightarrow> run option" where
  "log rt r =
     (case HEAD r of
        None \<Rightarrow> Some ([], Some no_repository)
      | Some _ \<Rightarrow>
          (case getCurrentHead r of
             None \<Rightarrow> Some ([Log ''No commits yet.''], None)
           | Some current \<Rightarrow> log_loop log_lines rt (objects r) (Some current) []))"

definition getCommitRaw :: "repo \<Rightarrow> string \<Rightarrow> string option" where
  "getCommitRaw r h = objects r h"

definition getFileContent :: "repo \<Rightarrow> string \<Rightarrow> string" where
  "getFileContent r fileHash = (case objects r fileHash of Some content \<Rightarrow> content | None \<Rightarrow> [])"

text \<open>\<open>None\<close> is \<^verbatim>\<open>undefined\<close>: the parent commit has no entry for the path.\<close>

definition getParentFileContent :: "repo \<Rightarrow> commit_data \<Rightarrow> string \<Rightarrow> string option" where
  "getParentFileContent r parentCommitData filePath =
     (case find (\<lambda>f. path f = filePath) (files parentCommitData) of
        Some parentFile \<Rightarrow> Some (getFileContent r (hash parentFile))
      | None \<Rightarrow> None)"

definition render_part :: "change \<Rightarrow> out" where
  "render_part part =
     (if added part then Green (''++ '' @ part_value part)
      else if removed part then Red (''--'' @ part_value part)
      else Grey (part_value part))"

definition parent_missing :: out where
  "parent_missing = Log (''  (Parent commit object missing.)'' @ newline)"

definition new_file :: out where
  "new_file = Log (''  (New file in this commit)'' @ newline)"

definition first_commit :: out where
  "first_commit = Log (''  (First commit, no parent to diff against)'' @ newline)"

text \<open>The body of the loop over \<^verbatim>\<open>commitData.files\<close> in \<^verbatim>\<open>showCommitDiff\<close>.\<close>

definition diff_file :: "runtime \<Rightarrow> repo \<Rightarrow> commit_data \<Rightarrow> entry \<Rightarrow> run" where
  "diff_file rt r commitData file =
     (let fileContent = getFileContent r (hash file);
          printed = [Log (''File: '' @ path file), Log fileContent]
      in case or_null (parent commitData) of
           None \<Rightarrow> (printed @ [first_commit], None)
         | Some p \<Rightarrow>
             (case or_null (getCommitRaw r p) of
                None \<Rightarrow> (printed @ [parent_missing], None)
              | Some rawParent \<Rightarrow>
                  (case JSON_parse_commit rt rawParent of
                     None \<Rightarrow> (printed, Some SyntaxError)
                   | Some parentCommitData \<Rightarrow>
                       (case getParentFileContent r parentCommitData (path file) of
                          Some parentFileContent \<Rightarrow>
                            (printed @ [Log (newline @ ''Diff:'')]
                               @ map render_part (diffLines rt parentFileContent fileContent)
                               @ [Log newline], None)
                        | None \<Rightarrow> (printed @ [new_file], None)))))"

definition showCommitDiff :: "runtime \<Rightarrow> repo \<Rightarrow> string \<Rightarrow> run" where
  "showCommitDiff rt r commitHash =
     (case HEAD r of
        None \<Rightarrow> ([], Some no_repository)
      | Some _ \<Rightarrow>
          (case or_null (getCommitRaw r commitHash) of
             None \<Rightarrow> ([], Some (Exit1 (''Commit '' @ commitHash @ '' not found.'')))
           | Some rawCurrent \<Rightarrow>
               (case JSON_parse_commit rt rawCurrent of
                  None \<Rightarrow> ([], Some SyntaxError)
                | Some commitData \<Rightarrow>
                    (case for_each (diff_file rt r commitData) (files commitData) of
                       (printed, e) \<Rightarrow>
                         (Log (''Changes in commit '' @ commitHash @ '':'' @ newline) # printed, e)))))"

subsection \<open>Gyst.js\<close>

text \<open>
  The constructor of this file calls \<^verbatim>\<open>init\<close> and does not wait for it; the
  methods below are modelled on a repository whose directories exist.
\<close>

definition getCurrentHead_Gyst :: "repo \<Rightarrow> string option" where
  "getCurrentHead_Gyst r = HEAD r"

definition updateStagingArea_Gyst ::
  "runtime \<Rightarrow> string \<Rightarrow> string \<Rightarrow> repo \<Rightarrow> (error + unit) \<times> repo" where
  "updateStagingArea_Gyst rt filePath fileHash r =
     (case index_file r of
        None \<Rightarrow> (Inl ENOENT, r)
      | Some text \<Rightarrow>
          (case JSON_parse_index rt text of
             None \<Rightarrow> (Inl SyntaxError, r)
           | Some index \<Rightarrow>
               (let index = index @ [\<lparr>path = filePath, hash = fileHash\<rparr>]
                in (Inr (), r\<lparr>index_file := Some (JSON_stringify_index rt 0 index)\<rparr>))))"

definition add_Gyst ::
  "runtime \<Rightarrow> (string \<rightharpoonup> string) \<Rightarrow> string \<Rightarrow> repo \<Rightarrow> (error + unit) \<times> repo" where
  "add_Gyst rt worktree fileToBeAdded r =
     (case worktree fileToBeAdded of
        None \<Rightarrow> (Inl ENOENT, r)
      | Some fileData \<Rightarrow>
          (let fileHash = hashObject rt fileData;
               r = r\<lparr>objects := (objects r)(fileHash \<mapsto> fileData)\<rparr>
           in updateStagingArea_Gyst rt fileToBeAdded fileHash r))"

definition commit_Gyst :: "runtime \<Rightarrow> string \<Rightarrow> string \<Rightarrow> repo \<Rightarrow> (error + string) \<times> repo" where
  "commit_Gyst rt now msg r =
     (case index_file r of
        None \<Rightarrow> (Inl ENOENT, r)
      | Some text \<Rightarrow>
          (case JSON_parse_index rt text of
             None \<Rightarrow> (Inl SyntaxError, r)
           | Some index \<Rightarrow>
               (let parentCommit = getCurrentHead_Gyst r;
                    commitData = \<lparr>timeStamp = now, message = msg, files = index, parent = parentCommit\<rparr>;
                    commitHash = hashObject rt (JSON_stringify_commit rt 0 commitData);
                    r = r\<lparr>objects := (objects r)(commitHash \<mapsto> JSON_stringify_commit rt 0 commitData)\<rparr>;
                    r = r\<lparr>HEAD := Some commitHash\<rparr>;
                    r = r\<lparr>index_file := Some (JSON_stringify_index rt 0 [])\<rparr>
                in (Inr commitHash, r))))"

definition log_lines_Gyst :: "string \<Rightarrow> commit_data \<Rightarrow> out list" where
  "log_lines_Gyst currentCommitHash commitData =
     [Log (''_____________________'' @ newline),
      Log (''Commit: '' @ currentCommitHash @ newline @ ''Date: '' @ timeStamp commitData
             @ newline @ newline @ message commitData @ newline @ newline)]"

definition log_Gyst :: "runtime \<Rightarrow> repo \<Rightarrow> run option" where
  "log_Gyst rt r = log_loop log_lines_Gyst rt (objects r) (getCurrentHead_Gyst r) []"

text \<open>
  \<^verbatim>\<open>getCommitData\<close> prints a line when the read fails and returns \<^verbatim>\<open>null\<close>
  (the error object that the line ends with is left out).
\<close>

definition getCommitData :: "repo \<Rightarrow> string \<Rightarrow> out list \<times> string option" where
  "getCommitData r commithash =
     (case objects r commithash of
        Some raw \<Rightarrow> ([], Some raw)
      | None \<Rightarrow> ([Log (''Failed to read the commit data for '' @ commithash @ '':'')], None))"

text \<open>
  \<^verbatim>\<open>JSON.parse(x)\<close> for \<open>x\<close> a text or \<^verbatim>\<open>null\<close>: \<^verbatim>\<open>JSON.parse(null)\<close> is
  \<^verbatim>\<open>null\<close>, the inner \<open>None\<close>.
\<close>

definition parse_or_null :: "runtime \<Rightarrow> string option \<Rightarrow> error + commit_data option" where
  "parse_or_null rt raw =
     (case raw of
        None \<Rightarrow> Inr None
      | Some text \<Rightarrow>
          (case JSON_parse_commit rt text of None \<Rightarrow> Inl SyntaxError | Some c \<Rightarrow> Inr (Some c)))"

definition getFileContent_Gyst :: "repo \<Rightarrow> string \<Rightarrow> error + string" where
  "getFileContent_Gyst r fileHash =
     (case objects r fileHash of Some content \<Rightarrow> Inr content | None \<Rightarrow> Inl ENOENT)"

text \<open>
  \<^verbatim>\<open>getParentFileContent\<close> reads \<^verbatim>\<open>parentCommitData.files\<close>, a TypeError when
  \<^verbatim>\<open>parentCommitData\<close> is \<^verbatim>\<open>null\<close>.
\<close>

definition getParentFileContent_Gyst ::
  "repo \<Rightarrow> commit_data option \<Rightarrow> string \<Rightarrow> error + string option" where
  "getParentFileContent_Gyst r parentCommitData filePath =
     (case parentCommitData of
        None \<Rightarrow> Inl TypeError
      | Some pcd \<Rightarrow>
          (case find (\<lambda>file. path file = filePath) (files pcd) of
             Some parentFile \<Rightarrow>
               (case getFileContent_Gyst r (hash parentFile) of
                  Inl e \<Rightarrow> Inl e
                | Inr content \<Rightarrow> Inr (Some content))
           | None \<Rightarrow> Inr None))"

definition render_part_Gyst :: "change \<Rightarrow> out" where
  "render_part_Gyst part =
     (if added part then Green (''++ '' @ part_value part)
      else if removed part then Red (''-- '' @ part_value part)
      else Grey (part_value part))"

definition diff_file_Gyst :: "runtime \<Rightarrow> repo \<Rightarrow> commit_data \<Rightarrow> entry \<Rightarrow> run" where
  "diff_file_Gyst rt r commitData file =
     (case getFileContent_Gyst r (hash file) of
        Inl e \<Rightarrow> ([Log (''File: '' @ path file)], Some e)
      | Inr fileContent \<Rightarrow>
          (let printed = [Log (''File: '' @ path file), Log fileContent] in
           case or_null (parent commitData) of
             None \<Rightarrow> (printed @ [Log ''First commit''], None)
           | Some p \<Rightarrow>
               (case getCommitData r p of
                  (failed, raw) \<Rightarrow>
                    (case parse_or_null rt raw of
                       Inl e \<Rightarrow> (printed @ failed, Some e)
                     | Inr parentCommitData \<Rightarrow>
                         (case getParentFileContent_Gyst r parentCommitData (path file) of
                            Inl e \<Rightarrow> (printed @ failed, Some e)
                          | Inr (Some parentFileContent) \<Rightarrow>
                              (printed @ failed @ [Log (newline @ ''Diff:'')]
                                 @ map render_part_Gyst (diffLines rt parentFileContent fileContent)
                                 @ [Log []], None)
                          | Inr None \<Rightarrow>
                              (printed @ failed @ [Log ''New file in this commit''], None))))))"

definition showCommitDiff_Gyst :: "runtime \<Rightarrow> repo \<Rightarrow> string \<Rightarrow> run" where
  "showCommitDiff_Gyst rt r commitHash =
     (case getCommitData r commitHash of
        (failed, raw) \<Rightarrow>
          (case parse_or_null rt raw of
             Inl e \<Rightarrow> (failed, Some e)
           | Inr None \<Rightarrow> (failed @ [Log (''Commit '' @ commitHash @ '' not found.'')], None)
           | Inr (Some commitData) \<Rightarrow>
               (case for_each (diff_file_Gyst rt r commitData) (files commitData) of
                  (printed, e) \<Rightarrow>
                    (failed @ Log (''Changes in the last commit are'' @ newline) # printed, e))))"

subsection \<open>Chains of commits and the integrity of pointers\<close>

text \<open>
  \<open>walk rt objs current cs\<close> follows the list \<open>cs\<close> of digests and commits from
  \<open>current\<close>: each digest is the current one, is not empty and resolves in the store to
  its commit, whose parent is the next current one. The result is the pointer after the
  last commit of \<open>cs\<close>, or \<open>None\<close> when the store does not hold this chain.
\<close>

fun walk ::
  "runtime \<Rightarrow> (string \<rightharpoonup> string) \<Rightarrow> string option \<Rightarrow> (string \<times> commit_data) list \<Rightarrow>
     string option option" where
  "walk rt objs current [] = Some current"
| "walk rt objs current ((h, c) # cs) =
     (if current = Some h \<and> h \<noteq> [] \<and> Option.bind (objs h) (JSON_parse_commit rt) = Some c
      then walk rt objs (parent c) cs else None)"


text \<open>
  Every digest that HEAD or the staging list records names a stored object.
\<close>

definition pointer_integrity :: "runtime \<Rightarrow> repo \<Rightarrow> bool" where
  "pointer_integrity rt r \<longleftrightarrow>
     (case HEAD r of None \<Rightarrow> True | Some h \<Rightarrow> h = [] \<or> objects r h \<noteq> None) \<and>
     list_all (\<lambda>e. objects r (hash e) \<noteq> None) (read_index rt r)"

subsection \<open>The line diff, from its description\<close>

text \<open>
  Modelled from the spec: \<^verbatim>\<open>diffLines\<close> is imported from the package
  \<^verbatim>\<open>diff\<close>, whose code is not in the repository. The description: the content is
  split into lines; a minimal edit script, based on a longest common subsequence, turns
  the old lines into the new ones; the result is the maximal contiguous runs of equal,
  added or removed lines, in document order.
\<close>

text \<open>A line ends with its line feed; the last line of a text has none and may be empty.\<close>

fun lines_of :: "string \<Rightarrow> string list" where
  "lines_of [] = [[]]"
| "lines_of (c # cs) =
     (if c = CHR 0x0A then [c] # lines_of cs
      else (case lines_of cs of [] \<Rightarrow> [[c]] | l # ls \<Rightarrow> (c # l) # ls))"

fun lcs_length :: "string list \<Rightarrow> string list \<Rightarrow> nat" where
  "lcs_length [] ys = 0"
| "lcs_length xs [] = 0"
| "lcs_length (x # xs) (y # ys) =
     (if x = y then Suc (lcs_length xs ys)
      else max (lcs_length xs (y # ys)) (lcs_length (x # xs) ys))"

fun edit_script :: "string list \<Rightarrow> string list \<Rightarrow> change list" where
  "edit_script [] ys = map (\<lambda>y. \<lparr>added = True, removed = False, part_value = y\<rparr>) ys"
| "edit_script xs [] = map (\<lambda>x. \<lparr>added = False, removed = True, part_value = x\<rparr>) xs"
| "edit_script (x # xs) (y # ys) =
     (if x = y then \<lparr>added = False, removed = False, part_value = x\<rparr> # edit_script xs ys
      else if lcs_length (x # xs) ys \<le> lcs_length xs (y # ys)
      then \<lparr>added = False, removed = True, part_value = x\<rparr> # edit_script xs (y # ys)
      else \<lparr>added = True, removed = False, part_value = y\<rparr> # edit_script (x # xs) ys)"

text \<open>Neighbours of one kind are joined into one run.\<close>

fun runs :: "change list \<Rightarrow> change list" where
  "runs [] = []"
| "runs [a] = [a]"
| "runs (a # b # rest) =
     (if added a = added b \<and> removed a = removed b
      then runs (a\<lparr>part_value := part_value a @ part_value b\<rparr> # rest)
      else a # runs (b # rest))"

definition diffLines_spec :: "string \<Rightarrow> string \<Rightarrow> change list" where
  "diffLines_spec oldText newText = runs (edit_script (lines_of oldText) (lines_of newText))"

subsection \<open>A small runtime\<close>

text \<open>
  An instance of \<open>runtime\<close> on which the theorems are exercised. It is not the
  JavaScript runtime: texts are lists of fields, each field closed by a comma, with
  \<open>%\<close> before a comma or a \<open>%\<close> inside a field; the first field is the indentation.
  The digest of a text is the text after the letter \<open>h\<close>.
\<close>

definition escape :: "string \<Rightarrow> string" where
  "escape s = concat (map (\<lambda>c. if c = CHR '','' \<or> c = CHR ''%'' then [CHR ''%'', c] else [c]) s)"

definition encode_fields :: "string list \<Rightarrow> string" where
  "encode_fields fs = concat (map (\<lambda>f. escape f @ '','') fs)"

fun decode_fields :: "string \<Rightarrow> string \<Rightarrow> string list option" where
  "decode_fields field [] = (if field = [] then Some [] else None)"
| "decode_fields field [c] =
     (if c = CHR '','' then Some [rev field] else None)"
| "decode_fields field (c # d # cs) =
     (if c = CHR '','' then map_option (Cons (rev field)) (decode_fields [] (d # cs))
      else if c = CHR ''%'' then decode_fields (d # field) cs
      else decode_fields (c # field) (d # cs))"

definition fields_of_index :: "entry list \<Rightarrow> string list" where
  "fields_of_index index = concat (map (\<lambda>e. [path e, hash e]) index)"

fun index_of_fields :: "string list \<Rightarrow> entry list option" where
  "index_of_fields [] = Some []"
| "index_of_fields [p] = None"
| "index_of_fields (p # h # fs) =
     map_option (Cons \<lparr>path = p, hash = h\<rparr>) (index_of_fields fs)"

definition small_stringify_index :: "nat \<Rightarrow> entry list \<Rightarrow> string" where
  "small_stringify_index n index = encode_fields (replicate n (CHR '' '') # fields_of_index index)"

definition small_parse_index :: "string \<Rightarrow> entry list option" where
  "small_parse_index text =
     (case decode_fields [] text of
        Some (indent # fs) \<Rightarrow> index_of_fields fs
      | _ \<Rightarrow> None)"

definition small_stringify_commit :: "nat \<Rightarrow> commit_data \<Rightarrow> string" where
  "small_stringify_commit n c =
     encode_fields
       (replicate n (CHR '' '') # timeStamp c # message c
          # (case parent c of None \<Rightarrow> [''null'', []] | Some p \<Rightarrow> [''string'', p])
          @ fields_of_index (files c))"

definition small_parse_commit :: "string \<Rightarrow> commit_data option" where
  "small_parse_commit text =
     (case decode_fields [] text of
        Some (indent # t # m # kind # p # fs) \<Rightarrow>
          (case index_of_fields fs of
             None \<Rightarrow> None
           | Some index \<Rightarrow>
               if kind = ''null'' \<and> p = []
               then Some \<lparr>timeStamp = t, message = m, files = index, parent = None\<rparr>
               else if kind = ''string''
               then Some \<lparr>timeStamp = t, message = m, files = index, parent = Some p\<rparr>
               else None)
      | _ \<Rightarrow> None)"

definition small_runtime :: runtime where
  "small_runtime =
     \<lparr>sha1_hex = (\<lambda>s. CHR ''h'' # s),
      JSON_parse_index = small_parse_index,
      JSON_stringify_index = small_stringify_index,
      JSON_parse_commit = small_parse_commit,
      JSON_stringify_commit = small_stringify_commit,
      diffLines = diffLines_spec\<rparr>"

subsection \<open>Example repositories\<close>

text \<open>The repository after \<^verbatim>\<open>init\<close> in an empty directory.\<close>

definition fresh_repo :: repo where
  "fresh_repo =
     \<lparr>objects = Map.empty, HEAD = Some [], index_file = Some (small_stringify_index 0 [])\<rparr>"

definition root_commit :: commit_data where
  "root_commit =
     \<lparr>timeStamp = ''t1'', message = ''first'',
      files = [\<lparr>path = ''a.txt'', hash = ''ha''\<rparr>, \<lparr>path = ''b.txt'', hash = ''hb''\<rparr>],
      parent = None\<rparr>"

definition second_commit :: commit_data where
  "second_commit =
     \<lparr>timeStamp = ''t2'', message = ''second'',
      files = [\<lparr>path = ''a.txt'', hash = ''ha2''\<rparr>, \<lparr>path = ''b.txt'', hash = ''hb''\<rparr>],
      parent = Some ''H1''\<rparr>"

text \<open>Two commits, \<open>H2\<close> on top of \<open>H1\<close>, and their three blobs.\<close>

definition history_repo :: repo where
  "history_repo =
     \<lparr>objects =
        [''ha'' \<mapsto> ''hello'', ''hb'' \<mapsto> ''world'', ''ha2'' \<mapsto> ''hello world'',
         ''H1'' \<mapsto> small_stringify_commit 2 root_commit,
         ''H2'' \<mapsto> small_stringify_commit 2 second_commit],
      HEAD = Some ''H2'',
      index_file = Some (small_stringify_index 2 [])\<rparr>"

text \<open>The same repository after the object \<open>H1\<close> was deleted by hand.\<close>

definition purged_repo :: repo where
  "purged_repo = history_repo\<lparr>objects := (objects history_repo)(''H1'' := None)\<rparr>"

text \<open>The fresh repository after \<^verbatim>\<open>add a.txt\<close>, the file holding \<open>hello\<close>.\<close>

definition staged_repo :: repo where
  "staged_repo =
     \<lparr>objects = [''hhello'' \<mapsto> ''hello''], HEAD = Some [],
      index_file = Some (small_stringify_index 0 [\<lparr>path = ''a.txt'', hash = ''hhello''\<rparr>])\<rparr>"

section \<open>Properties\<close>

subsection \<open>The small runtime parses what it prints\<close>

lemma decode_comma:
  "decode_fields field (CHR '','' # rest) = map_option (Cons (rev field)) (decode_fields [] rest)"
  by (cases rest) simp_all

lemma decode_plain:
  "c \<noteq> CHR '','' \<Longrightarrow> c \<noteq> CHR ''%'' \<Longrightarrow> rest \<noteq> [] \<Longrightarrow>
     decode_fields field (c # rest) = decode_fields (c # field) rest"
  by (cases rest) simp_all

lemma decode_escape:
  "decode_fields field (escape f @ CHR '','' # rest) =
     map_option (Cons (rev field @ f)) (decode_fields [] rest)"
proof (induction f arbitrary: field)
  case Nil
  show ?case by (simp add: escape_def decode_comma)
next
  case (Cons c f)
  have step: "escape (c # f) =
      (if c = CHR '','' \<or> c = CHR ''%'' then [CHR ''%'', c] else [c]) @ escape f"
    by (simp add: escape_def)
  show ?case
  proof (cases "c = CHR '','' \<or> c = CHR ''%''")
    case True
    then show ?thesis using Cons.IH [of "c # field"] by (simp add: step)
  next
    case False
    then show ?thesis using Cons.IH [of "c # field"] by (simp add: step decode_plain)
  qed
qed

lemma decode_encode: "decode_fields [] (encode_fields fs) = Some fs"
proof (induction fs)
  case Nil
  show ?case by (simp add: encode_fields_def)
next
  case (Cons f fs)
  have "encode_fields (f # fs) = escape f @ CHR '','' # encode_fields fs"
    by (simp add: encode_fields_def)
  then show ?case using Cons.IH by (simp add: decode_escape)
qed

lemma index_of_fields_of_index: "index_of_fields (fields_of_index index) = Some index"
  by (induction index) (simp_all add: fields_of_index_def)

lemma small_index_roundtrip: "small_parse_index (small_stringify_index n index) = Some index"
  by (simp add: small_parse_index_def small_stringify_index_def decode_encode
      index_of_fields_of_index)

lemma small_commit_roundtrip: "small_parse_commit (small_stringify_commit n c) = Some c"
  by (cases "parent c")
    (simp_all add: small_parse_commit_def small_stringify_commit_def decode_encode
      index_of_fields_of_index)

lemma small_stringify_commit_not_empty: "small_stringify_commit n c \<noteq> []"
  by (simp add: small_stringify_commit_def encode_fields_def)

lemma small_runtime_roundtrip: "json_roundtrip small_runtime"
  by (simp add: json_roundtrip_def small_runtime_def small_index_roundtrip small_commit_roundtrip)

subsection \<open>What the operations read and leave\<close>

lemma read_index_written:
  "json_roundtrip rt \<Longrightarrow>
     read_index rt (r\<lparr>index_file := Some (JSON_stringify_index rt n index)\<rparr>) = index"
  by (simp add: read_index_def json_roundtrip_def)

lemma read_index_updateStagingArea:
  "json_roundtrip rt \<Longrightarrow>
     read_index rt (updateStagingArea rt p h r) =
       filter (\<lambda>e. path e \<noteq> p) (read_index rt r) @ [\<lparr>path = p, hash = h\<rparr>]"
  by (simp add: updateStagingArea_def Let_def read_index_written)

lemma objects_updateStagingArea: "objects (updateStagingArea rt p h r) = objects r"
  by (simp add: updateStagingArea_def Let_def)

lemma HEAD_updateStagingArea: "HEAD (updateStagingArea rt p h r) = HEAD r"
  by (simp add: updateStagingArea_def Let_def)


lemma init_existing: "HEAD r = Some t \<Longrightarrow> init rt r = r"
  by (simp add: init_def)

lemma objects_init: "objects (init rt r) = objects r"
  by (simp add: init_def Let_def split: option.splits)

lemma HEAD_init: "HEAD (init rt r) = (case HEAD r of None \<Rightarrow> Some [] | Some t \<Rightarrow> Some t)"
  by (simp add: init_def Let_def split: option.splits)

lemma read_index_init: "json_roundtrip rt \<Longrightarrow> read_index rt (init rt r) = read_index rt r"
  by (auto simp: init_def Let_def read_index_def json_roundtrip_def split: option.splits)

lemma or_null_getCurrentHead: "or_null (getCurrentHead r) = getCurrentHead r"
  by (simp add: or_null_def getCurrentHead_def split: option.splits)

lemma getCurrentHead_HEAD: "getCurrentHead r = Some h \<Longrightarrow> HEAD r \<noteq> None \<and> h \<noteq> []"
  by (auto simp: getCurrentHead_def split: option.splits if_splits)

lemma for_each_all_ok:
  "(\<And>x. x \<in> set xs \<Longrightarrow> body x = (f x, None)) \<Longrightarrow>
     for_each body xs = (concat (map f xs), None)"
  by (induction xs) simp_all

subsection \<open>The dispatcher file on the cases where Gyst.js differs\<close>

text \<open>
  Staging a path twice: one entry for the path is left, with the second hash, behind
  the entries of the other paths.
\<close>

lemma updateStagingArea_twice:
  assumes "json_roundtrip rt"
  shows "read_index rt (updateStagingArea rt p h2 (updateStagingArea rt p h1 r)) =
           filter (\<lambda>e. path e \<noteq> p) (read_index rt r) @ [\<lparr>path = p, hash = h2\<rparr>] \<and>
         filter (\<lambda>e. path e = p)
           (read_index rt (updateStagingArea rt p h2 (updateStagingArea rt p h1 r))) =
           [\<lparr>path = p, hash = h2\<rparr>]"
  using assms by (simp add: read_index_updateStagingArea)

text \<open>
  A commit with nothing staged exits with status 1 and leaves the repository as it
  was, when the file HEAD exists. When HEAD is absent and the index holds the empty
  list, the call to \<^verbatim>\<open>init\<close> creates an empty HEAD before the exit.
\<close>

lemma commit_empty_index:
  assumes "HEAD r = Some t" and "read_index rt r = []"
  shows "commit rt now msg r = (Inl (Exit1 ''No changes added to commit.''), r)"
  using assms by (simp add: commit_def init_existing Let_def)

lemma commit_empty_index_no_HEAD:
  assumes "HEAD r = None" and "index_file r = Some text" and "JSON_parse_index rt text = Some []"
  shows "commit rt now msg r =
     (Inl (Exit1 ''No changes added to commit.''), r\<lparr>HEAD := Some []\<rparr>)"
  using assms by (simp add: commit_def init_def Let_def read_index_def)

text \<open>
  An absent, empty or blank HEAD reads as \<^verbatim>\<open>null\<close>, and the commit made on it
  stores the parent \<^verbatim>\<open>null\<close>.
\<close>

lemma getCurrentHead_null:
  "HEAD r = None \<or> HEAD r = Some [] \<Longrightarrow> getCurrentHead r = None"
  by (auto simp: getCurrentHead_def trim_def)

lemma first_commit_parent_null:
  assumes rt: "json_roundtrip rt"
    and fresh: "HEAD r = None \<or> HEAD r = Some []"
    and ok: "commit rt now msg r = (Inr commitHash, r')"
  shows "HEAD r' = Some commitHash \<and>
         Option.bind (objects r' commitHash) (JSON_parse_commit rt) =
           Some \<lparr>timeStamp = now, message = msg, files = read_index rt r, parent = None\<rparr>"
proof -
  have "getCurrentHead (init rt r) = None"
    using fresh by (auto simp: getCurrentHead_def HEAD_init trim_def)
  then show ?thesis
    using ok rt
    by (auto simp: commit_def Let_def or_null_def read_index_init json_roundtrip_def
        split: if_splits)
qed

text \<open>
  A parent that is not in the store: every file of the commit is printed with the
  notice, and the command ends without an error.
\<close>

lemma showCommitDiff_parent_missing:
  assumes "HEAD r = Some t"
    and "objects r h = Some raw" and "raw \<noteq> []" and "JSON_parse_commit rt raw = Some c"
    and "parent c = Some p" and "p \<noteq> []" and "objects r p = None"
  shows "showCommitDiff rt r h =
     (Log (''Changes in commit '' @ h @ '':'' @ newline) #
        concat (map (\<lambda>f. [Log (''File: '' @ path f), Log (getFileContent r (hash f)),
                           parent_missing]) (files c)),
      None)"
proof -
  have "diff_file rt r c f =
      ([Log (''File: '' @ path f), Log (getFileContent r (hash f)), parent_missing], None)" for f
    using assms by (simp add: diff_file_def Let_def or_null_def getCommitRaw_def)
  then have "for_each (diff_file rt r c) (files c) =
      (concat (map (\<lambda>f. [Log (''File: '' @ path f), Log (getFileContent r (hash f)),
                          parent_missing]) (files c)), None)"
    by (intro for_each_all_ok)
  then show ?thesis
    using assms by (simp add: showCommitDiff_def or_null_def getCommitRaw_def)
qed

subsection \<open>The history loop along a chain\<close>

lemma log_loop_walk:
  "walk rt objs current cs = Some nxt \<Longrightarrow>
     log_loop lines rt objs current printed =
       log_loop lines rt objs nxt (printed @ concat (map (\<lambda>(h, c). lines h c) cs))"
proof (induction cs arbitrary: current printed)
  case Nil
  then show ?case by simp
next
  case (Cons hc cs)
  obtain h c where hc: "hc = (h, c)" by (cases hc)
  from Cons.prems hc have cur: "current = Some h" and h: "h \<noteq> []"
    and res: "Option.bind (objs h) (JSON_parse_commit rt) = Some c"
    and rest: "walk rt objs (parent c) cs = Some nxt"
    by (simp_all split: if_splits)
  from res obtain raw where raw: "objs h = Some raw" "JSON_parse_commit rt raw = Some c"
    by (cases "objs h") simp_all
  have "log_loop lines rt objs current printed =
      log_loop lines rt objs (parent c) (printed @ lines h c)"
    by (subst log_loop.simps) (simp add: cur h raw)
  also have "\<dots> =
      log_loop lines rt objs nxt ((printed @ lines h c) @ concat (map (\<lambda>(h, c). lines h c) cs))"
    by (rule Cons.IH [OF rest])
  finally show ?case by (simp add: hc)
qed


lemma log_loop_missing:
  "p \<noteq> [] \<Longrightarrow> objs p = None \<Longrightarrow>
     log_loop lines rt objs (Some p) printed = Some (printed, Some ENOENT)"
  by (subst log_loop.simps) simp

subsection \<open>Lines and runs\<close>

lemma concat_lines_of: "concat (lines_of s) = s"
  by (induction s) (auto split: list.splits)

lemma lines_of_not_Nil: "lines_of s \<noteq> []"
  by (induction s) (auto split: list.splits)

lemma edit_script_same:
  "edit_script ls ls = map (\<lambda>l. \<lparr>added = False, removed = False, part_value = l\<rparr>) ls"
  by (induction ls) simp_all

text \<open>
  The edit script turns the old lines into the new ones and keeps as many lines as the
  longest common subsequence has.
\<close>

lemma edit_script_old:
  "map part_value (filter (\<lambda>p. \<not> added p) (edit_script xs ys)) = xs"
  by (induction xs ys rule: edit_script.induct) (auto simp: comp_def filter_map)

lemma edit_script_new:
  "map part_value (filter (\<lambda>p. \<not> removed p) (edit_script xs ys)) = ys"
  by (induction xs ys rule: edit_script.induct) (auto simp: comp_def filter_map)

lemma edit_script_equal_count:
  "length (filter (\<lambda>p. \<not> added p \<and> \<not> removed p) (edit_script xs ys)) = lcs_length xs ys"
  by (induction xs ys rule: edit_script.induct) (auto simp: max_def)

lemma runs_equal:
  "runs (\<lparr>added = False, removed = False, part_value = t\<rparr> #
      map (\<lambda>l. \<lparr>added = False, removed = False, part_value = l\<rparr>) ls) =
     [\<lparr>added = False, removed = False, part_value = t @ concat ls\<rparr>]"
  by (induction ls arbitrary: t) simp_all

subsection \<open>The integrity of pointers, step by step\<close>

lemma pointer_integrity_iff:
  "pointer_integrity rt r \<longleftrightarrow>
     (\<forall>h. HEAD r = Some h \<longrightarrow> h = [] \<or> objects r h \<noteq> None) \<and>
     (\<forall>e \<in> set (read_index rt r). objects r (hash e) \<noteq> None)"
  by (auto simp: pointer_integrity_def list_all_iff split: option.splits)

lemma pointer_integrity_init:
  "pointer_integrity rt r \<Longrightarrow> json_roundtrip rt \<Longrightarrow> pointer_integrity rt (init rt r)"
  by (auto simp: pointer_integrity_iff read_index_init objects_init HEAD_init split: option.splits)

lemma pointer_integrity_store:
  "pointer_integrity rt r \<Longrightarrow> pointer_integrity rt (r\<lparr>objects := (objects r)(h \<mapsto> content)\<rparr>)"
  by (auto simp: pointer_integrity_iff read_index_def)

lemma pointer_integrity_updateStagingArea:
  assumes "pointer_integrity rt r" and "json_roundtrip rt" and "objects r h \<noteq> None"
  shows "pointer_integrity rt (updateStagingArea rt p h r)"
  using assms
  by (auto simp: pointer_integrity_iff read_index_updateStagingArea objects_updateStagingArea
      HEAD_updateStagingArea)

lemma pointer_integrity_updateStagingArea_Gyst:
  assumes "pointer_integrity rt r" and "json_roundtrip rt" and "objects r h \<noteq> None"
  shows "pointer_integrity rt (snd (updateStagingArea_Gyst rt p h r))"
proof (cases "Option.bind (index_file r) (JSON_parse_index rt)")
  case None
  then have "snd (updateStagingArea_Gyst rt p h r) = r"
    by (auto simp: updateStagingArea_Gyst_def split: option.splits)
  then show ?thesis using assms by simp
next
  case (Some index)
  then have "read_index rt r = index"
    by (auto simp: read_index_def split: option.splits Option.bind_splits)
  moreover have "snd (updateStagingArea_Gyst rt p h r) =
      r\<lparr>index_file := Some (JSON_stringify_index rt 0 (index @ [\<lparr>path = p, hash = h\<rparr>]))\<rparr>"
    using Some
    by (auto simp: updateStagingArea_Gyst_def Let_def split: option.splits Option.bind_splits)
  ultimately show ?thesis
    using assms by (auto simp: pointer_integrity_iff read_index_written)
qed

lemma pointer_integrity_add:
  assumes "pointer_integrity rt r" and "json_roundtrip rt"
  shows "pointer_integrity rt (snd (add rt worktree f r))"
proof (cases "worktree f")
  case None
  then show ?thesis using assms by (simp add: add_def Let_def pointer_integrity_init)
next
  case (Some fileData)
  have "pointer_integrity rt
      ((init rt r)\<lparr>objects := (objects (init rt r))(hashObject rt fileData \<mapsto> fileData)\<rparr>)"
    by (intro pointer_integrity_store pointer_integrity_init assms)
  then show ?thesis
    using Some assms by (simp add: add_def Let_def pointer_integrity_updateStagingArea)
qed

lemma pointer_integrity_add_Gyst:
  assumes "pointer_integrity rt r" and "json_roundtrip rt"
  shows "pointer_integrity rt (snd (add_Gyst rt worktree f r))"
proof (cases "worktree f")
  case None
  then show ?thesis using assms by (simp add: add_Gyst_def)
next
  case (Some fileData)
  have "pointer_integrity rt (r\<lparr>objects := (objects r)(hashObject rt fileData \<mapsto> fileData)\<rparr>)"
    by (intro pointer_integrity_store assms)
  then show ?thesis
    using Some assms by (simp add: add_Gyst_def Let_def pointer_integrity_updateStagingArea_Gyst)
qed

lemma pointer_integrity_commit:
  assumes "pointer_integrity rt r" and "json_roundtrip rt"
  shows "pointer_integrity rt (snd (commit rt now msg r))"
proof (cases "read_index rt (init rt r) = []")
  case True
  then show ?thesis using assms by (simp add: commit_def Let_def pointer_integrity_init)
next
  case False
  then show ?thesis
    using assms by (simp add: commit_def Let_def pointer_integrity_iff read_index_written)
qed

lemma pointer_integrity_commit_Gyst:
  assumes "pointer_integrity rt r" and "json_roundtrip rt"
  shows "pointer_integrity rt (snd (commit_Gyst rt now msg r))"
  using assms
  by (auto simp: commit_Gyst_def Let_def pointer_integrity_iff read_index_written
      split: option.splits)

subsection \<open>The example repositories\<close>


lemma getCurrentHead_purged: "getCurrentHead purged_repo = Some ''H2''"
  by (simp add: getCurrentHead_def purged_repo_def history_repo_def trim_def is_space_def)

lemma walk_purged:
  "walk small_runtime (objects purged_repo) (Some ''H2'') [(''H2'', second_commit)] =
     Some (Some ''H1'')"
  by (simp add: purged_repo_def history_repo_def small_runtime_def small_commit_roundtrip
      second_commit_def)


lemma parse_H2_purged:
  "objects purged_repo ''H2'' = Some (small_stringify_commit 2 second_commit) \<and>
   small_stringify_commit 2 second_commit \<noteq> [] \<and>
   JSON_parse_commit small_runtime (small_stringify_commit 2 second_commit) = Some second_commit \<and>
   objects purged_repo ''H1'' = None"
  by (simp add: purged_repo_def history_repo_def small_runtime_def small_commit_roundtrip
      small_stringify_commit_not_empty)


section \<open>The claims\<close>

text \<open>
  Claim C1: staging a path twice leaves exactly one entry for the path, with the second
  hash. The dispatcher file removes the old entry first. \<^verbatim>\<open>updateStagingArea\<close> of
  Gyst.js pushes the new entry and removes nothing: after staging \<open>p\<close> with \<open>h1\<close> and
  then with \<open>h2\<close>, the list is the old list followed by both entries.
\<close>

theorem updateStagingArea_Gyst_keeps_both:
  assumes "json_roundtrip rt"
    and "index_file r = Some text" and "JSON_parse_index rt text = Some index"
  shows "read_index rt
           (snd (updateStagingArea_Gyst rt p h2 (snd (updateStagingArea_Gyst rt p h1 r)))) =
         index @ [\<lparr>path = p, hash = h1\<rparr>, \<lparr>path = p, hash = h2\<rparr>]"
  using assms
  by (simp add: updateStagingArea_Gyst_def Let_def read_index_written json_roundtrip_def)

theorem updateStagingArea_Gyst_keeps_both_witness:
  "json_roundtrip small_runtime \<and>
   read_index small_runtime
     (snd (updateStagingArea_Gyst small_runtime ''a.txt'' ''h2''
        (snd (updateStagingArea_Gyst small_runtime ''a.txt'' ''h1'' fresh_repo)))) =
     [\<lparr>path = ''a.txt'', hash = ''h1''\<rparr>, \<lparr>path = ''a.txt'', hash = ''h2''\<rparr>]"
proof -
  have i: "index_file fresh_repo = Some (small_stringify_index 0 [])"
    by (simp add: fresh_repo_def)
  have p: "JSON_parse_index small_runtime (small_stringify_index 0 []) = Some []"
    by (simp add: small_runtime_def small_index_roundtrip)
  from updateStagingArea_Gyst_keeps_both [OF small_runtime_roundtrip i p]
  show ?thesis by (simp add: small_runtime_roundtrip)
qed

text \<open>
  Claim C2: a commit on an empty staging list fails and writes nothing. The dispatcher
  file has the guard. \<^verbatim>\<open>commit\<close> of Gyst.js has none: on an empty list it stores a
  commit without files, moves HEAD to it and rewrites the index.
\<close>

theorem commit_Gyst_empty_index_commits:
  assumes "index_file r = Some text" and "JSON_parse_index rt text = Some []"
  shows "commit_Gyst rt now msg r =
     (let commitData = \<lparr>timeStamp = now, message = msg, files = [], parent = HEAD r\<rparr>;
          commitHash = hashObject rt (JSON_stringify_commit rt 0 commitData)
      in (Inr commitHash,
          \<lparr>objects = (objects r)(commitHash \<mapsto> JSON_stringify_commit rt 0 commitData),
           HEAD = Some commitHash,
           index_file = Some (JSON_stringify_index rt 0 [])\<rparr>))"
  using assms by (simp add: commit_Gyst_def Let_def getCurrentHead_Gyst_def)

theorem commit_Gyst_empty_index_commits_witness:
  "read_index small_runtime history_repo = [] \<and>
   HEAD history_repo = Some ''H2'' \<and>
   fst (commit_Gyst small_runtime ''t3'' ''oops'' history_repo) = Inr ''h,t3,oops,string,H2,'' \<and>
   HEAD (snd (commit_Gyst small_runtime ''t3'' ''oops'' history_repo)) = Some ''h,t3,oops,string,H2,''"
proof -
  have i: "index_file history_repo = Some (small_stringify_index 2 [])"
    by (simp add: history_repo_def)
  have p: "JSON_parse_index small_runtime (small_stringify_index 2 []) = Some []"
    by (simp add: small_runtime_def small_index_roundtrip)
  have h: "HEAD history_repo = Some ''H2''"
    by (simp add: history_repo_def)
  have e: "read_index small_runtime history_repo = []"
    by (simp add: read_index_def i p)
  have d: "hashObject small_runtime
      (JSON_stringify_commit small_runtime 0
         \<lparr>timeStamp = ''t3'', message = ''oops'', files = [], parent = Some ''H2''\<rparr>) =
      ''h,t3,oops,string,H2,''"
    by (simp add: hashObject_def small_runtime_def small_stringify_commit_def encode_fields_def
        escape_def fields_of_index_def)
  from commit_Gyst_empty_index_commits [OF i p, of "''t3''" "''oops''"]
  show ?thesis by (simp add: Let_def h e d)
qed

text \<open>
  Claim C3: on an absent or empty HEAD \<^verbatim>\<open>getCurrentHead\<close> returns \<^verbatim>\<open>null\<close>, and
  the first commit of a fresh repository stores the parent \<^verbatim>\<open>null\<close>. The
  dispatcher file does both. \<^verbatim>\<open>getCurrentHead\<close> of Gyst.js returns the text of the
  file: on the empty HEAD of a fresh repository it returns the empty string, and the
  commit stores the empty string as its parent.
\<close>

theorem getCurrentHead_Gyst_empty_head:
  assumes "json_roundtrip rt" and "HEAD r = Some []"
    and "commit_Gyst rt now msg r = (Inr commitHash, r')"
  shows "getCurrentHead_Gyst r = Some [] \<and>
         Option.bind (objects r' commitHash) (JSON_parse_commit rt) =
           Some \<lparr>timeStamp = now, message = msg, files = read_index rt r, parent = Some []\<rparr>"
  using assms
  by (auto simp: commit_Gyst_def getCurrentHead_Gyst_def Let_def json_roundtrip_def read_index_def
      split: option.splits)

theorem getCurrentHead_Gyst_empty_head_witness:
  "HEAD staged_repo = Some [] \<and>
   getCurrentHead_Gyst staged_repo = Some [] \<and>
   Option.bind
     (objects (snd (commit_Gyst small_runtime ''t1'' ''first'' staged_repo))
        ''h,t1,first,string,,a.txt,hhello,'')
     (JSON_parse_commit small_runtime) =
     Some \<lparr>timeStamp = ''t1'', message = ''first'',
            files = [\<lparr>path = ''a.txt'', hash = ''hhello''\<rparr>], parent = Some []\<rparr>"
proof -
  have h: "HEAD staged_repo = Some []"
    by (simp add: staged_repo_def)
  have i: "read_index small_runtime staged_repo = [\<lparr>path = ''a.txt'', hash = ''hhello''\<rparr>]"
    by (simp add: read_index_def staged_repo_def small_runtime_def small_index_roundtrip)
  have d: "hashObject small_runtime
      (JSON_stringify_commit small_runtime 0
         \<lparr>timeStamp = ''t1'', message = ''first'',
          files = [\<lparr>path = ''a.txt'', hash = ''hhello''\<rparr>], parent = Some []\<rparr>) =
      ''h,t1,first,string,,a.txt,hhello,''"
    by (simp add: hashObject_def small_runtime_def small_stringify_commit_def encode_fields_def
        escape_def fields_of_index_def)
  have "fst (commit_Gyst small_runtime ''t1'' ''first'' staged_repo) =
      Inr ''h,t1,first,string,,a.txt,hhello,''"
    using d
    by (simp add: commit_Gyst_def staged_repo_def small_runtime_def small_index_roundtrip
        Let_def getCurrentHead_Gyst_def)
  then have c: "commit_Gyst small_runtime ''t1'' ''first'' staged_repo =
      (Inr ''h,t1,first,string,,a.txt,hhello,'',
       snd (commit_Gyst small_runtime ''t1'' ''first'' staged_repo))"
    by (simp add: prod_eq_iff)
  from getCurrentHead_Gyst_empty_head [OF small_runtime_roundtrip h c]
  show ?thesis by (simp add: h i)
qed

text \<open>
  Claim C4: when the parent of the commit does not resolve, the diff reports the missing
  parent for the file and goes on with the other files. The dispatcher file does so.
  \<^verbatim>\<open>showCommitDiff\<close> of Gyst.js parses the \<^verbatim>\<open>null\<close> that \<^verbatim>\<open>getCommitData\<close>
  returns and reads \<^verbatim>\<open>.files\<close> of the result: a TypeError at the first file of the
  commit, which ends the command; no other file is printed.
\<close>

theorem showCommitDiff_Gyst_parent_missing_aborts:
  assumes "objects r h = Some raw" and "JSON_parse_commit rt raw = Some c"
    and "parent c = Some p" and "p \<noteq> []" and "objects r p = None"
    and "files c = f # fs" and "objects r (hash f) = Some content"
  shows "showCommitDiff_Gyst rt r h =
     ([Log (''Changes in the last commit are'' @ newline),
       Log (''File: '' @ path f), Log content,
       Log (''Failed to read the commit data for '' @ p @ '':'')],
      Some TypeError)"
proof -
  have "diff_file_Gyst rt r c f =
      ([Log (''File: '' @ path f), Log content,
        Log (''Failed to read the commit data for '' @ p @ '':'')], Some TypeError)"
    using assms
    by (simp add: diff_file_Gyst_def getFileContent_Gyst_def Let_def or_null_def getCommitData_def
        parse_or_null_def getParentFileContent_Gyst_def)
  then show ?thesis
    using assms by (simp add: showCommitDiff_Gyst_def getCommitData_def parse_or_null_def)
qed

theorem showCommitDiff_Gyst_parent_missing_aborts_witness:
  "objects purged_repo ''H1'' = None \<and>
   showCommitDiff_Gyst small_runtime purged_repo ''H2'' =
     ([Log (''Changes in the last commit are'' @ newline),
       Log ''File: a.txt'', Log ''hello world'',
       Log ''Failed to read the commit data for H1:''],
      Some TypeError)"
proof -
  have p: "parent second_commit = Some ''H1''" "''H1'' \<noteq> []"
    and f: "files second_commit =
      \<lparr>path = ''a.txt'', hash = ''ha2''\<rparr> # [\<lparr>path = ''b.txt'', hash = ''hb''\<rparr>]"
    by (simp_all add: second_commit_def)
  have b: "objects purged_repo (hash \<lparr>path = ''a.txt'', hash = ''ha2''\<rparr>) = Some ''hello world''"
    by (simp add: purged_repo_def history_repo_def)
  from parse_H2_purged have raw: "objects purged_repo ''H2'' = Some (small_stringify_commit 2 second_commit)"
    and parse: "JSON_parse_commit small_runtime (small_stringify_commit 2 second_commit) = Some second_commit"
    and gone: "objects purged_repo ''H1'' = None"
    by simp_all
  from showCommitDiff_Gyst_parent_missing_aborts [OF raw parse p gone f b]
  show ?thesis by (simp add: gone)
qed

text \<open>
  Claim C5: a parent that does not resolve at a later hop of the history walk stops the
  walk with a warning and no error. In both files the read inside the loop is not
  guarded: on \<open>purged_repo\<close> the walk prints the commit \<open>H2\<close> and ends with the
  rejected read of \<open>H1\<close>.
\<close>

theorem log_missing_parent_counterexample:
  "log small_runtime purged_repo = Some (log_lines ''H2'' second_commit, Some ENOENT) \<and>
   log_Gyst small_runtime purged_repo = Some (log_lines_Gyst ''H2'' second_commit, Some ENOENT)"
proof -
  have gone: "objects purged_repo ''H1'' = None"
    by (simp add: purged_repo_def)
  have loop: "log_loop lines small_runtime (objects purged_repo) (Some ''H2'') [] =
      Some (lines ''H2'' second_commit, Some ENOENT)" for lines
    by (simp add: log_loop_walk [OF walk_purged] log_loop_missing gone)
  have "HEAD purged_repo = Some ''H2''"
    by (simp add: purged_repo_def history_repo_def)
  then show ?thesis
    by (simp add: log_def log_Gyst_def getCurrentHead_purged getCurrentHead_Gyst_def loop)
qed

text \<open>
  Claim C5, as amended: when the walk from HEAD has passed the commits \<open>cs\<close> and the
  next digest \<open>p\<close> does not resolve, the commits of \<open>cs\<close> are printed and the walk ends
  with the uncaught error of the read; no warning is printed. With \<open>cs\<close> empty this is
  the walk from a HEAD that does not resolve, which fails in the same way.
\<close>

theorem log_missing_parent_fails:
  assumes "walk rt (objects r) (Some h) cs = Some (Some p)"
    and "p \<noteq> []" and "objects r p = None"
  shows "(getCurrentHead r = Some h \<longrightarrow>
            log rt r = Some (concat (map (\<lambda>(h, c). log_lines h c) cs), Some ENOENT)) \<and>
         (getCurrentHead_Gyst r = Some h \<longrightarrow>
            log_Gyst rt r = Some (concat (map (\<lambda>(h, c). log_lines_Gyst h c) cs), Some ENOENT))"
proof -
  have loop: "log_loop lines rt (objects r) (Some h) [] =
      Some (concat (map (\<lambda>(h, c). lines h c) cs), Some ENOENT)" for lines
    by (simp add: log_loop_walk [OF assms(1)] log_loop_missing assms)
  show ?thesis
  proof (intro conjI impI)
    assume g: "getCurrentHead r = Some h"
    then obtain t where "HEAD r = Some t"
      using getCurrentHead_HEAD [of r h] by (cases "HEAD r") simp_all
    then show "log rt r = Some (concat (map (\<lambda>(h, c). log_lines h c) cs), Some ENOENT)"
      using g by (simp add: log_def loop)
  next
    assume "getCurrentHead_Gyst r = Some h"
    then show "log_Gyst rt r = Some (concat (map (\<lambda>(h, c). log_lines_Gyst h c) cs), Some ENOENT)"
      by (simp add: log_Gyst_def loop)
  qed
qed

theorem log_missing_parent_fails_witness:
  "walk small_runtime (objects purged_repo) (Some ''H2'') [(''H2'', second_commit)] =
     Some (Some ''H1'') \<and>
   objects purged_repo ''H1'' = None \<and>
   getCurrentHead purged_repo = Some ''H2'' \<and>
   log small_runtime purged_repo =
     Some ([Log (''_____________________'' @ newline), Log ''Commit: H2'',
            Log (''Date:   t2'' @ newline), Log (''    second'' @ newline)], Some ENOENT)"
proof -
  have gone: "objects purged_repo ''H1'' = None"
    by (simp add: purged_repo_def)
  have "''H1'' \<noteq> []" by simp
  from log_missing_parent_fails [OF walk_purged this gone] getCurrentHead_purged
  have "log small_runtime purged_repo = Some (log_lines ''H2'' second_commit, Some ENOENT)"
    by simp
  then have "log small_runtime purged_repo =
     Some ([Log (''_____________________'' @ newline), Log ''Commit: H2'',
            Log (''Date:   t2'' @ newline), Log (''    second'' @ newline)], Some ENOENT)"
    by (simp add: log_lines_def second_commit_def)
  with walk_purged gone getCurrentHead_purged show ?thesis
    by blast
qed







text \<open>
  Claim C9: the diff of a text against itself is a single run of equal lines that holds
  the whole text, with no added and no removed run. It is printed as one grey part by
  both files.
\<close>

theorem diffLines_spec_identity:
  "diffLines_spec x x = [\<lparr>added = False, removed = False, part_value = x\<rparr>] \<and>
   map render_part (diffLines_spec x x) = [Grey x] \<and>
   map render_part_Gyst (diffLines_spec x x) = [Grey x]"
proof -
  obtain l ls where ls: "lines_of x = l # ls"
    using lines_of_not_Nil [of x] by (cases "lines_of x") simp_all
  have "l @ concat ls = x"
    using concat_lines_of [of x] by (simp add: ls)
  then have "diffLines_spec x x = [\<lparr>added = False, removed = False, part_value = x\<rparr>]"
    by (simp add: diffLines_spec_def edit_script_same ls runs_equal)
  then show ?thesis
    by (simp add: render_part_def render_part_Gyst_def)
qed

text \<open>
  Claim C10: the operations keep the integrity of pointers. When every digest in HEAD
  and in the staging list names a stored object, the same holds after \<^verbatim>\<open>init\<close>,
  \<^verbatim>\<open>add\<close> and \<^verbatim>\<open>commit\<close> of both files, whether the call succeeds or fails, and
  in the state between the write of an object and the write that records its digest.
\<close>

theorem pointer_integrity_preserved:
  assumes "json_roundtrip rt" and "pointer_integrity rt r"
  shows "pointer_integrity rt (init rt r) \<and>
         pointer_integrity rt (snd (add rt worktree f r)) \<and>
         pointer_integrity rt (snd (commit rt now msg r)) \<and>
         pointer_integrity rt (snd (add_Gyst rt worktree f r)) \<and>
         pointer_integrity rt (snd (commit_Gyst rt now msg r)) \<and>
         pointer_integrity rt (r\<lparr>objects := (objects r)(h \<mapsto> content)\<rparr>)"
  using assms
  by (simp add: pointer_integrity_init pointer_integrity_add pointer_integrity_commit
      pointer_integrity_add_Gyst pointer_integrity_commit_Gyst pointer_integrity_store)

theorem pointer_integrity_preserved_witness:
  "json_roundtrip small_runtime \<and>
   pointer_integrity small_runtime fresh_repo \<and>
   pointer_integrity small_runtime
     (snd (add small_runtime [''a.txt'' \<mapsto> ''hello''] ''a.txt'' fresh_repo)) \<and>
   pointer_integrity small_runtime
     (snd (add_Gyst small_runtime [''a.txt'' \<mapsto> ''hello''] ''a.txt'' fresh_repo))"
proof -
  have f: "pointer_integrity small_runtime fresh_repo"
    by (simp add: pointer_integrity_def fresh_repo_def read_index_def small_runtime_def
        small_index_roundtrip)
  from pointer_integrity_preserved [OF small_runtime_roundtrip f]
  show ?thesis by (simp add: small_runtime_roundtrip f)
qed

end
